theory Spec2Isabelle
  imports Complex_Main
begin

section \<open>Data model of the playback engine (src/src/playback.js)\<close>

text \<open>
  A field of a parsed JSON object that the code reads as a string is absent
  (\<open>undefined\<close>), \<open>null\<close> (the recorder writes \<open>element.id || null\<close>) or a
  string.
\<close>

datatype jstr = Undefined | Null | Str string

text \<open>JavaScript truthiness of such a field, as used by \<open>&&\<close>, \<open>if\<close> and \<open>Boolean\<close>.\<close>

fun truthy :: "jstr \<Rightarrow> bool" where
  "truthy (Str s) = (s \<noteq> [])"
| "truthy Undefined = False"
| "truthy Null = False"

text \<open>A template literal \<open>`${x}`\<close> renders an absent field as text.\<close>

fun template :: "jstr \<Rightarrow> string" where
  "template (Str s) = s"
| "template Undefined = ''undefined''"
| "template Null = ''null''"

text \<open>Optional chaining \<open>x?.f()\<close>: \<open>undefined\<close> when \<open>x\<close> is nullish.\<close>

fun optional_chain :: "(string \<Rightarrow> string) \<Rightarrow> jstr \<Rightarrow> jstr" where
  "optional_chain f (Str s) = Str (f s)"
| "optional_chain f Undefined = Undefined"
| "optional_chain f Null = Undefined"

text \<open>\<open>Array.prototype.filter(Boolean)\<close> on an array of such values.\<close>

fun filter_Boolean :: "jstr list \<Rightarrow> string list" where
  "filter_Boolean [] = []"
| "filter_Boolean (Str s # xs) = (if s = [] then filter_Boolean xs else s # filter_Boolean xs)"
| "filter_Boolean (Undefined # xs) = filter_Boolean xs"
| "filter_Boolean (Null # xs) = filter_Boolean xs"

text \<open>\<open>String.prototype.split\<close> with a one-character separator, and \<open>Array.prototype.join\<close>.\<close>

fun split :: "char \<Rightarrow> string \<Rightarrow> string list" where
  "split sep [] = [[]]"
| "split sep (c # cs) =
     (if c = sep then [] # split sep cs
      else (case split sep cs of
              [] \<Rightarrow> [[c]]
            | w # ws \<Rightarrow> (c # w) # ws))"

fun join :: "string \<Rightarrow> string list \<Rightarrow> string" where
  "join sep [] = []"
| "join sep [w] = w"
| "join sep (w # v # ws) = w @ sep @ join sep (v # ws)"

text \<open>\<open>String.prototype.toLowerCase\<close> on the ASCII letters (other characters are kept).\<close>

definition lower_char :: "char \<Rightarrow> char" where
  "lower_char c =
     (case map_of (zip ''ABCDEFGHIJKLMNOPQRSTUVWXYZ'' ''abcdefghijklmnopqrstuvwxyz'') c of
        None \<Rightarrow> c
      | Some l \<Rightarrow> l)"

definition toLowerCase :: "string \<Rightarrow> string" where
  "toLowerCase s = map lower_char s"

record interaction =
  type :: string
  timestamp :: "int option"
  url :: jstr
  tagName :: jstr
  id_attr :: jstr
  className :: jstr
  name :: jstr
  selector :: jstr
  value_attr :: jstr
  checked :: "bool option"
  coordinates :: "(int \<times> int) option"

record recording =
  sessionId :: string
  startTime :: string
  endTime :: string
  totalInteractions :: int
  interactions :: "interaction list"


section \<open>The browser capability and the observable trace\<close>

type_synonym page = nat
type_synonym element = nat

text \<open>
  Errors as values. \<open>PageError\<close> is whatever the browser capability rejects
  with; \<open>TypeError\<close> is a property read on \<open>null\<close> or \<open>undefined\<close>; the others
  are the errors the source constructs with \<open>new Error\<close>.
\<close>

datatype error =
    PageError string
  | TypeError
  | SyntaxError
  | RecordingFileNotFound string
  | NoRecordingLoaded
  | BrowserNotInitialized
  | CouldNotChangeElement jstr
  | CouldNotToggleCheckbox jstr
  | CouldNotSetRangeValue jstr
  | CouldNotSubmitForm jstr

text \<open>Puppeteer calls whose result the source ignores.\<close>

datatype action =
    Goto jstr
  | WaitForSelector jstr
  | Click string
  | Focus string
  | KeyboardDown string
  | KeyboardPress string
  | KeyboardUp string
  | TypeText string jstr
  | SelectOption string jstr
  | ReadyState
  | MouseClick int int

text \<open>What the functions passed to \<open>page.evaluate\<close> do to the element they found.\<close>

datatype effect = SetValue jstr | DispatchEvent string | Submit

datatype call =
    Url
  | Query string
  | EvalChecked string
  | Do action
  | QuerySelector jstr
  | Effect element effect

text \<open>One constructor per \<open>console.log\<close> / \<open>console.error\<close> template of the source.\<close>

datatype msg =
    LoadedRecording string
  | TotalInteractions int
  | Duration string string
  | PlaybackSpeedSet real
  | Playing nat int string jstr
  | RefreshingPageReference
  | NavigatingTo jstr
  | NavigationFailedContinuing
  | SkippingUnsupported string
  | ErrorPlaying nat error
  | NavigatedTo jstr
  | NavigationFailed error
  | Clicked string
  | ClickedAtCoordinates int int
  | CouldNotClickAtCoordinates error
  | CouldNotClickElement jstr
  | Typed jstr string
  | CouldNotTypeInElement jstr
  | Selected jstr string
  | ChangedValue jstr string
  | Toggled bool string
  | SetRangeTo jstr jstr
  | SubmittedForm jstr
  | ElementNotFoundWithinTimeout jstr
  | PageUnresponsive
  | StartingPlayback int real
  | PressCtrlC
  | Waiting int
  | PlaybackCompleted

text \<open>How a call on a page ended: it threw, or it gave a value.\<close>

datatype given = Unit | Text string | Handle "element option" | Flag "bool option"

datatype result = Threw error | Gave given

text \<open>
  Everything the engine does that an observer can see, oldest first: console
  output, calls made on a page with how they ended, \<open>browser.pages()\<close>, and
  timer waits (\<open>await new Promise(resolve => setTimeout(resolve, ms))\<close>).
\<close>

datatype event =
    Console msg
  | PageCall page call result
  | BrowserPages "error + page list"
  | Timeout real

text \<open>
  The browser is an external capability: a deterministic machine over a state
  \<open>'w\<close> that answers each call with a result or an error. \<open>page_query\<close> is
  \<open>page.$\<close> (an element handle or \<open>null\<close>), \<open>page_eval_checked\<close> is
  \<open>page.$eval(sel, el => el.checked)\<close> (\<open>None\<close> when the property is
  \<open>undefined\<close>), \<open>doc_querySelector\<close>, \<open>elem_tagName\<close> and \<open>elem_effect\<close>
  are what the functions handed to \<open>page.evaluate\<close> use inside the page.
\<close>

record 'w env =
  page_url :: "'w \<Rightarrow> page \<Rightarrow> (error + string) \<times> 'w"
  page_query :: "'w \<Rightarrow> page \<Rightarrow> string \<Rightarrow> (error + element option) \<times> 'w"
  page_eval_checked :: "'w \<Rightarrow> page \<Rightarrow> string \<Rightarrow> (error + bool option) \<times> 'w"
  page_action :: "'w \<Rightarrow> page \<Rightarrow> action \<Rightarrow> (error + unit) \<times> 'w"
  doc_querySelector :: "'w \<Rightarrow> page \<Rightarrow> jstr \<Rightarrow> (error + element option) \<times> 'w"
  elem_tagName :: "'w \<Rightarrow> page \<Rightarrow> element \<Rightarrow> string"
  elem_effect :: "'w \<Rightarrow> page \<Rightarrow> element \<Rightarrow> effect \<Rightarrow> (error + unit) \<times> 'w"
  browser_pages :: "'w \<Rightarrow> (error + page list) \<times> 'w"

text \<open>
  The fields of \<open>InteractionPlayback\<close> (\<open>browser\<close>: attached or \<open>null\<close>;
  \<open>page\<close>: a handle, or \<open>null\<close>/\<open>undefined\<close>), together with the state of the
  browser and the trace.
\<close>

record 'w playback =
  browser :: bool
  page :: "page option"
  playbackSpeed :: real
  recording :: "recording option"
  world :: 'w
  trace :: "event list"

definition emit :: "event \<Rightarrow> 'w playback \<Rightarrow> 'w playback" where
  "emit e st = st\<lparr>trace := trace st @ [e]\<rparr>"

definition console :: "msg \<Rightarrow> 'w playback \<Rightarrow> 'w playback" where
  "console m st = emit (Console m) st"

definition setTimeout :: "real \<Rightarrow> 'w playback \<Rightarrow> 'w playback" where
  "setTimeout ms st = emit (Timeout ms) st"

text \<open>A method call on \<open>this.page\<close>: a \<open>TypeError\<close> when the handle is nullish.\<close>

definition outcome :: "('a \<Rightarrow> given) \<Rightarrow> error + 'a \<Rightarrow> result" where
  "outcome give r = (case r of Inl e \<Rightarrow> Threw e | Inr v \<Rightarrow> Gave (give v))"

definition on_page ::
  "('w \<Rightarrow> page \<Rightarrow> (error + 'a) \<times> 'w) \<Rightarrow> call \<Rightarrow> ('a \<Rightarrow> given) \<Rightarrow> 'w playback \<Rightarrow>
     (error + 'a) \<times> 'w playback" where
  "on_page f c give st =
     (case page st of
        None \<Rightarrow> (Inl TypeError, st)
      | Some p \<Rightarrow>
          (case f (world st) p of
             (r, w) \<Rightarrow> (r, emit (PageCall p c (outcome give r)) (st\<lparr>world := w\<rparr>))))"

definition pageUrl :: "'w env \<Rightarrow> 'w playback \<Rightarrow> (error + string) \<times> 'w playback" where
  "pageUrl env st = on_page (page_url env) Url Text st"

definition pageQuery ::
  "'w env \<Rightarrow> string \<Rightarrow> 'w playback \<Rightarrow> (error + element option) \<times> 'w playback" where
  "pageQuery env sel st = on_page (\<lambda>w p. page_query env w p sel) (Query sel) Handle st"

definition pageEvalChecked ::
  "'w env \<Rightarrow> string \<Rightarrow> 'w playback \<Rightarrow> (error + bool option) \<times> 'w playback" where
  "pageEvalChecked env sel st =
     on_page (\<lambda>w p. page_eval_checked env w p sel) (EvalChecked sel) Flag st"

definition pageDo :: "'w env \<Rightarrow> action \<Rightarrow> 'w playback \<Rightarrow> (error + unit) \<times> 'w playback" where
  "pageDo env a st = on_page (\<lambda>w p. page_action env w p a) (Do a) (\<lambda>u. Unit) st"

definition docQuerySelector ::
  "'w env \<Rightarrow> jstr \<Rightarrow> 'w playback \<Rightarrow> (error + element option) \<times> 'w playback" where
  "docQuerySelector env sel st =
     on_page (\<lambda>w p. doc_querySelector env w p sel) (QuerySelector sel) Handle st"

definition elemEffect ::
  "'w env \<Rightarrow> element \<Rightarrow> effect \<Rightarrow> 'w playback \<Rightarrow> (error + unit) \<times> 'w playback" where
  "elemEffect env el eff st =
     on_page (\<lambda>w p. elem_effect env w p el eff) (Effect el eff) (\<lambda>u. Unit) st"

text \<open>\<open>this.browser.pages()\<close>.\<close>

definition browserPages :: "'w env \<Rightarrow> 'w playback \<Rightarrow> (error + page list) \<times> 'w playback" where
  "browserPages env st =
     (if \<not> browser st then (Inl TypeError, st)
      else (case browser_pages env (world st) of
              (r, w) \<Rightarrow> (r, emit (BrowserPages r) (st\<lparr>world := w\<rparr>))))"

text \<open>\<open>this.page = pages[pages.length - 1]\<close>: \<open>undefined\<close> for an empty array.\<close>

definition latestPage :: "page list \<Rightarrow> page option" where
  "latestPage pages = (if pages = [] then None else Some (last pages))"

text \<open>Consecutive awaited calls in one \<open>try\<close> block: the first rejection ends them.\<close>

fun pageDoAll :: "'w env \<Rightarrow> action list \<Rightarrow> 'w playback \<Rightarrow> (error + unit) \<times> 'w playback" where
  "pageDoAll env [] st = (Inr (), st)"
| "pageDoAll env (a # as) st =
     (case pageDo env a st of
        (Inl e, st1) \<Rightarrow> (Inl e, st1)
      | (Inr u, st1) \<Rightarrow> pageDoAll env as st1)"


section \<open>Loading and pacing\<close>

text \<open>
  \<open>loadRecording\<close> (lines 16-26). The file system maps a path to the result of
  \<open>JSON.parse\<close> on the file's content; \<open>None\<close> is a path that does not exist.
\<close>

definition loadRecording ::
  "(string \<Rightarrow> (error + recording) option) \<Rightarrow> string \<Rightarrow> 'w playback \<Rightarrow> (error + unit) \<times> 'w playback" where
  "loadRecording fs filePath st =
     (case fs filePath of
        None \<Rightarrow> (Inl (RecordingFileNotFound filePath), st)
      | Some (Inl e) \<Rightarrow> (Inl e, st)
      | Some (Inr r) \<Rightarrow>
          (Inr (),
           console (Duration (startTime r) (endTime r))
             (console (TotalInteractions (totalInteractions r))
               (console (LoadedRecording (sessionId r))
                 (st\<lparr>recording := Some r\<rparr>)))))"

definition setPlaybackSpeed :: "real \<Rightarrow> 'w playback \<Rightarrow> 'w playback" where
  "setPlaybackSpeed speed st = console (PlaybackSpeedSet speed) (st\<lparr>playbackSpeed := speed\<rparr>)"

text \<open>
  \<open>calculateDelay\<close> (lines 58-61). JavaScript numbers are read as reals; the
  quotient is the source's for a non-zero \<open>playbackSpeed\<close> (the command line
  rejects a speed that is not positive).
\<close>

definition calculateDelay :: "'w playback \<Rightarrow> int \<Rightarrow> int \<Rightarrow> real" where
  "calculateDelay st previousTimestamp currentTimestamp =
     (let realDelay = currentTimestamp - previousTimestamp
      in max (real_of_int realDelay / playbackSpeed st) 50)"


section \<open>Resolving and dispatching one interaction\<close>

text \<open>\<open>waitForElement\<close> (lines 331-338).\<close>

definition waitForElement :: "'w env \<Rightarrow> jstr \<Rightarrow> 'w playback \<Rightarrow> 'w playback" where
  "waitForElement env sel st =
     (case pageDo env (WaitForSelector sel) st of
        (Inl e, st1) \<Rightarrow> console (ElementNotFoundWithinTimeout sel) st1
      | (Inr u, st1) \<Rightarrow> st1)"

text \<open>\<open>ensurePageReady\<close> (lines 341-350): \<open>browser.pages()\<close> is called in the handler.\<close>

definition ensurePageReady :: "'w env \<Rightarrow> 'w playback \<Rightarrow> (error + unit) \<times> 'w playback" where
  "ensurePageReady env st =
     (case pageDo env ReadyState st of
        (Inr u, st1) \<Rightarrow> (Inr (), st1)
      | (Inl e, st1) \<Rightarrow>
          (case browserPages env (console PageUnresponsive st1) of
             (Inl e2, st2) \<Rightarrow> (Inl e2, st2)
           | (Inr pages, st2) \<Rightarrow> (Inr (), st2\<lparr>page := latestPage pages\<rparr>)))"

text \<open>\<open>playNavigation\<close> (lines 125-136).\<close>

definition playNavigation ::
  "'w env \<Rightarrow> interaction \<Rightarrow> 'w playback \<Rightarrow> (error + unit) \<times> 'w playback" where
  "playNavigation env it st =
     (if \<not> truthy (url it) then (Inr (), st)
      else (case pageUrl env st of
              (Inl e, st1) \<Rightarrow> (Inl e, st1)
            | (Inr current, st1) \<Rightarrow>
                (if Str current \<noteq> url it then
                   (case pageDo env (Goto (url it)) st1 of
                      (Inl e, st2) \<Rightarrow> (Inr (), console (NavigationFailed e) st2)
                    | (Inr u, st2) \<Rightarrow>
                        (Inr (), console (NavigatedTo (url it)) (setTimeout 1500 st2)))
                 else (Inr (), st1))))"

text \<open>The candidate array of \<open>playClick\<close> (lines 144-149).\<close>

definition click_selectors :: "interaction \<Rightarrow> string list" where
  "click_selectors it =
     filter_Boolean
       [selector it,
        Str (''#'' @ template (id_attr it)),
        Str (''.'' @ template (optional_chain (\<lambda>c. join ''.'' (split CHR '' '' c)) (className it))),
        optional_chain toLowerCase (tagName it)]"

text \<open>
  The candidate array built alike in \<open>playInput\<close>, \<open>playChange\<close> and
  \<open>playCheckbox\<close> (lines 187-191, 228-232, 266-270).
\<close>

definition name_selectors :: "interaction \<Rightarrow> string list" where
  "name_selectors it =
     filter_Boolean
       [selector it,
        Str (''#'' @ template (id_attr it)),
        Str (''[name='' @ [CHR 0x22] @ template (name it) @ [CHR 0x22] @ '']'')]"

text \<open>The loop of \<open>playClick\<close> (lines 151-165); the result is \<open>clicked\<close>.\<close>

fun clickLoop :: "'w env \<Rightarrow> string list \<Rightarrow> 'w playback \<Rightarrow> bool \<times> 'w playback" where
  "clickLoop env [] st = (False, st)"
| "clickLoop env (sel # sels) st =
     (case pageQuery env sel st of
        (Inl e, st1) \<Rightarrow> clickLoop env sels st1
      | (Inr None, st1) \<Rightarrow> clickLoop env sels st1
      | (Inr (Some el), st1) \<Rightarrow>
          (case pageDo env (Click sel) st1 of
             (Inl e, st2) \<Rightarrow> clickLoop env sels st2
           | (Inr u, st2) \<Rightarrow> (True, console (Clicked sel) st2)))"

text \<open>\<open>playClick\<close> (lines 139-180).\<close>

definition playClick ::
  "'w env \<Rightarrow> interaction \<Rightarrow> 'w playback \<Rightarrow> (error + unit) \<times> 'w playback" where
  "playClick env it st =
     (case ensurePageReady env st of
        (Inl e, st1) \<Rightarrow> (Inl e, st1)
      | (Inr u, st1) \<Rightarrow>
          (case clickLoop env (click_selectors it) (waitForElement env (selector it) st1) of
             (True, st2) \<Rightarrow> (Inr (), st2)
           | (False, st2) \<Rightarrow>
               (case coordinates it of
                  Some (x, y) \<Rightarrow>
                    (case pageDo env (MouseClick x y) st2 of
                       (Inr u, st3) \<Rightarrow> (Inr (), console (ClickedAtCoordinates x y) st3)
                     | (Inl e, st3) \<Rightarrow> (Inr (), console (CouldNotClickAtCoordinates e) st3))
                | None \<Rightarrow> (Inr (), console (CouldNotClickElement (selector it)) st2))))"

text \<open>The loop of \<open>playInput\<close> (lines 193-217); the result is \<open>typed\<close>.\<close>

fun inputLoop :: "'w env \<Rightarrow> interaction \<Rightarrow> string list \<Rightarrow> 'w playback \<Rightarrow> bool \<times> 'w playback" where
  "inputLoop env it [] st = (False, st)"
| "inputLoop env it (sel # sels) st =
     (case pageQuery env sel st of
        (Inl e, st1) \<Rightarrow> inputLoop env it sels st1
      | (Inr None, st1) \<Rightarrow> inputLoop env it sels st1
      | (Inr (Some el), st1) \<Rightarrow>
          (case pageDoAll env
                  [Focus sel, KeyboardDown ''Control'', KeyboardPress ''KeyA'',
                   KeyboardUp ''Control'', KeyboardPress ''Backspace''] st1 of
             (Inl e, st2) \<Rightarrow> inputLoop env it sels st2
           | (Inr u, st2) \<Rightarrow>
               (if truthy (value_attr it) then
                  (case pageDo env (TypeText sel (value_attr it)) st2 of
                     (Inl e, st3) \<Rightarrow> inputLoop env it sels st3
                   | (Inr u, st3) \<Rightarrow> (True, console (Typed (value_attr it) sel) st3))
                else (True, st2))))"

text \<open>\<open>playInput\<close> (lines 183-222).\<close>

definition playInput ::
  "'w env \<Rightarrow> interaction \<Rightarrow> 'w playback \<Rightarrow> (error + unit) \<times> 'w playback" where
  "playInput env it st =
     (case ensurePageReady env st of
        (Inl e, st1) \<Rightarrow> (Inl e, st1)
      | (Inr u, st1) \<Rightarrow>
          (case inputLoop env it (name_selectors it) (waitForElement env (selector it) st1) of
             (True, st2) \<Rightarrow> (Inr (), st2)
           | (False, st2) \<Rightarrow> (Inr (), console (CouldNotTypeInElement (selector it)) st2)))"

text \<open>The function \<open>playChange\<close> hands to \<open>page.evaluate\<close> (lines 241-247).\<close>

definition evaluate_change ::
  "'w env \<Rightarrow> string \<Rightarrow> jstr \<Rightarrow> 'w playback \<Rightarrow> (error + unit) \<times> 'w playback" where
  "evaluate_change env sel v st =
     (case docQuerySelector env (Str sel) st of
        (Inl e, st1) \<Rightarrow> (Inl e, st1)
      | (Inr None, st1) \<Rightarrow> (Inr (), st1)
      | (Inr (Some el), st1) \<Rightarrow>
          (case elemEffect env el (SetValue v) st1 of
             (Inl e, st2) \<Rightarrow> (Inl e, st2)
           | (Inr u, st2) \<Rightarrow> elemEffect env el (DispatchEvent ''change'') st2))"

text \<open>The loop of \<open>playChange\<close> (lines 234-255); the result is \<open>changed\<close>.\<close>

fun changeLoop :: "'w env \<Rightarrow> interaction \<Rightarrow> string list \<Rightarrow> 'w playback \<Rightarrow> bool \<times> 'w playback" where
  "changeLoop env it [] st = (False, st)"
| "changeLoop env it (sel # sels) st =
     (if tagName it = Str ''SELECT'' then
        (case pageDo env (SelectOption sel (value_attr it)) st of
           (Inl e, st1) \<Rightarrow> changeLoop env it sels st1
         | (Inr u, st1) \<Rightarrow> (True, console (Selected (value_attr it) sel) st1))
      else
        (case evaluate_change env sel (value_attr it) st of
           (Inl e, st1) \<Rightarrow> changeLoop env it sels st1
         | (Inr u, st1) \<Rightarrow> (True, console (ChangedValue (value_attr it) sel) st1)))"

text \<open>\<open>playChange\<close> (lines 225-260).\<close>

definition playChange ::
  "'w env \<Rightarrow> interaction \<Rightarrow> 'w playback \<Rightarrow> (error + unit) \<times> 'w playback" where
  "playChange env it st =
     (case changeLoop env it (name_selectors it) (waitForElement env (selector it) st) of
        (True, st1) \<Rightarrow> (Inr (), st1)
      | (False, st1) \<Rightarrow> (Inl (CouldNotChangeElement (selector it)), st1))"

text \<open>\<open>interaction.checked || interaction.value === 'true'\<close> (line 276).\<close>

definition shouldBeChecked :: "interaction \<Rightarrow> bool" where
  "shouldBeChecked it = (checked it = Some True \<or> value_attr it = Str ''true'')"

text \<open>The loop of \<open>playCheckbox\<close> (lines 272-287); the result is \<open>clicked\<close>.\<close>

fun checkboxLoop :: "'w env \<Rightarrow> interaction \<Rightarrow> string list \<Rightarrow> 'w playback \<Rightarrow> bool \<times> 'w playback" where
  "checkboxLoop env it [] st = (False, st)"
| "checkboxLoop env it (sel # sels) st =
     (case pageEvalChecked env sel st of
        (Inl e, st1) \<Rightarrow> checkboxLoop env it sels st1
      | (Inr isChecked, st1) \<Rightarrow>
          (if isChecked \<noteq> Some (shouldBeChecked it) then
             (case pageDo env (Click sel) st1 of
                (Inl e, st2) \<Rightarrow> checkboxLoop env it sels st2
              | (Inr u, st2) \<Rightarrow> (True, console (Toggled (shouldBeChecked it) sel) st2))
           else (True, st1)))"

text \<open>\<open>playCheckbox\<close> (lines 263-292).\<close>

definition playCheckbox ::
  "'w env \<Rightarrow> interaction \<Rightarrow> 'w playback \<Rightarrow> (error + unit) \<times> 'w playback" where
  "playCheckbox env it st =
     (case checkboxLoop env it (name_selectors it) (waitForElement env (selector it) st) of
        (True, st1) \<Rightarrow> (Inr (), st1)
      | (False, st1) \<Rightarrow> (Inl (CouldNotToggleCheckbox (selector it)), st1))"

text \<open>The function \<open>playRange\<close> hands to \<open>page.evaluate\<close> (lines 299-306).\<close>

definition evaluate_range ::
  "'w env \<Rightarrow> jstr \<Rightarrow> jstr \<Rightarrow> 'w playback \<Rightarrow> (error + unit) \<times> 'w playback" where
  "evaluate_range env sel v st =
     (case docQuerySelector env sel st of
        (Inl e, st1) \<Rightarrow> (Inl e, st1)
      | (Inr None, st1) \<Rightarrow> (Inr (), st1)
      | (Inr (Some el), st1) \<Rightarrow>
          (case elemEffect env el (SetValue v) st1 of
             (Inl e, st2) \<Rightarrow> (Inl e, st2)
           | (Inr u, st2) \<Rightarrow>
               (case elemEffect env el (DispatchEvent ''input'') st2 of
                  (Inl e, st3) \<Rightarrow> (Inl e, st3)
                | (Inr u, st3) \<Rightarrow> elemEffect env el (DispatchEvent ''change'') st3)))"

text \<open>\<open>playRange\<close> (lines 295-311).\<close>

definition playRange ::
  "'w env \<Rightarrow> interaction \<Rightarrow> 'w playback \<Rightarrow> (error + unit) \<times> 'w playback" where
  "playRange env it st =
     (case evaluate_range env (selector it) (value_attr it) (waitForElement env (selector it) st) of
        (Inl e, st1) \<Rightarrow> (Inl (CouldNotSetRangeValue (selector it)), st1)
      | (Inr u, st1) \<Rightarrow> (Inr (), console (SetRangeTo (value_attr it) (selector it)) st1))"

text \<open>The function \<open>playSubmit\<close> hands to \<open>page.evaluate\<close> (lines 318-323).\<close>

definition evaluate_submit ::
  "'w env \<Rightarrow> jstr \<Rightarrow> 'w playback \<Rightarrow> (error + unit) \<times> 'w playback" where
  "evaluate_submit env sel st =
     (case docQuerySelector env sel st of
        (Inl e, st1) \<Rightarrow> (Inl e, st1)
      | (Inr None, st1) \<Rightarrow> (Inr (), st1)
      | (Inr (Some el), st1) \<Rightarrow>
          (case page st1 of
             None \<Rightarrow> (Inl TypeError, st1)
           | Some p \<Rightarrow>
               (if elem_tagName env (world st1) p el = ''FORM''
                then elemEffect env el Submit st1
                else (Inr (), st1))))"

text \<open>\<open>playSubmit\<close> (lines 314-328).\<close>

definition playSubmit ::
  "'w env \<Rightarrow> interaction \<Rightarrow> 'w playback \<Rightarrow> (error + unit) \<times> 'w playback" where
  "playSubmit env it st =
     (case evaluate_submit env (selector it) (waitForElement env (selector it) st) of
        (Inl e, st1) \<Rightarrow> (Inl (CouldNotSubmitForm (selector it)), st1)
      | (Inr u, st1) \<Rightarrow> (Inr (), console (SubmittedForm (selector it)) st1))"

section \<open>The controller\<close>

text \<open>The liveness probe at the head of \<open>playInteraction\<close> (lines 69-75).\<close>

definition refreshPageReference :: "'w env \<Rightarrow> 'w playback \<Rightarrow> (error + unit) \<times> 'w playback" where
  "refreshPageReference env st =
     (case pageUrl env st of
        (Inr u, st1) \<Rightarrow> (Inr (), st1)
      | (Inl e, st1) \<Rightarrow>
          (case browserPages env (console RefreshingPageReference st1) of
             (Inl e2, st2) \<Rightarrow> (Inl e2, st2)
           | (Inr pages, st2) \<Rightarrow> (Inr (), st2\<lparr>page := latestPage pages\<rparr>)))"

text \<open>The navigation to the record's URL (lines 78-88).\<close>

definition navigateIfNeeded ::
  "'w env \<Rightarrow> interaction \<Rightarrow> 'w playback \<Rightarrow> (error + unit) \<times> 'w playback" where
  "navigateIfNeeded env it st =
     (case pageUrl env st of
        (Inl e, st1) \<Rightarrow> (Inl e, st1)
      | (Inr currentUrl, st1) \<Rightarrow>
          (if Str currentUrl \<noteq> url it \<and> truthy (url it) then
             (case pageDo env (Goto (url it)) (console (NavigatingTo (url it)) st1) of
                (Inl e, st2) \<Rightarrow> (Inr (), console NavigationFailedContinuing st2)
              | (Inr u, st2) \<Rightarrow> (Inr (), setTimeout 1000 st2))
           else (Inr (), st1)))"

text \<open>The \<open>switch\<close> on \<open>interaction.type\<close> (lines 90-117).\<close>

definition dispatch ::
  "'w env \<Rightarrow> interaction \<Rightarrow> 'w playback \<Rightarrow> (error + unit) \<times> 'w playback" where
  "dispatch env it st =
     (if type it = ''navigation'' then playNavigation env it st
      else if type it = ''click'' then playClick env it st
      else if type it = ''input'' \<or> type it = ''text'' \<or> type it = ''search''
        then playInput env it st
      else if type it = ''change'' \<or> type it = ''select-one'' then playChange env it st
      else if type it = ''submit'' then playSubmit env it st
      else if type it = ''checkbox'' then playCheckbox env it st
      else if type it = ''range'' then playRange env it st
      else (Inr (), console (SkippingUnsupported (type it)) st))"

text \<open>The \<open>try\<close> block of \<open>playInteraction\<close> (lines 65-117).\<close>

definition playInteraction_try ::
  "'w env \<Rightarrow> interaction \<Rightarrow> nat \<Rightarrow> 'w playback \<Rightarrow> (error + unit) \<times> 'w playback" where
  "playInteraction_try env it index st =
     (case recording st of
        None \<Rightarrow> (Inl TypeError, st)
      | Some r \<Rightarrow>
          (case refreshPageReference env
                  (console (Playing (index + 1) (totalInteractions r) (type it) (url it)) st) of
             (Inl e, st1) \<Rightarrow> (Inl e, st1)
           | (Inr u, st1) \<Rightarrow>
               (case navigateIfNeeded env it st1 of
                  (Inl e, st2) \<Rightarrow> (Inl e, st2)
                | (Inr u, st2) \<Rightarrow> dispatch env it st2)))"

text \<open>\<open>playInteraction\<close> (lines 64-122): the \<open>catch\<close> logs and returns.\<close>

definition playInteraction ::
  "'w env \<Rightarrow> interaction \<Rightarrow> nat \<Rightarrow> 'w playback \<Rightarrow> 'w playback" where
  "playInteraction env it index st =
     (case playInteraction_try env it index st of
        (Inl e, st1) \<Rightarrow> console (ErrorPlaying (index + 1) e) st1
      | (Inr u, st1) \<Rightarrow> st1)"

text \<open>\<open>Math.round\<close>.\<close>

definition Math_round :: "real \<Rightarrow> int" where
  "Math_round x = \<lfloor>x + 1 / 2\<rfloor>"

text \<open>
  The pacing block of \<open>startPlayback\<close> (lines 371-377);
  \<open>previousTimestamp && interaction.timestamp\<close> holds for two present,
  non-zero numbers.
\<close>

definition applyDelay :: "int option \<Rightarrow> interaction \<Rightarrow> 'w playback \<Rightarrow> 'w playback" where
  "applyDelay previousTimestamp it st =
     (case previousTimestamp of
        None \<Rightarrow> st
      | Some p \<Rightarrow>
          (case timestamp it of
             None \<Rightarrow> st
           | Some c \<Rightarrow>
               (if p \<noteq> 0 \<and> c \<noteq> 0 then
                  (let delay = calculateDelay st p c
                   in if delay > 50
                      then setTimeout delay (console (Waiting (Math_round delay)) st)
                      else st)
                else st)))"

text \<open>
  The \<open>for\<close> loop of \<open>startPlayback\<close> (lines 367-381) from index \<open>i\<close> on; nothing
  assigns \<open>this.recording\<close> during playback, so the loop walks the list it
  started with.
\<close>

fun playbackLoop ::
  "'w env \<Rightarrow> int option \<Rightarrow> nat \<Rightarrow> interaction list \<Rightarrow> 'w playback \<Rightarrow> 'w playback" where
  "playbackLoop env previousTimestamp i [] st = st"
| "playbackLoop env previousTimestamp i (it # its) st =
     playbackLoop env (timestamp it) (Suc i) its
       (playInteraction env it i (applyDelay previousTimestamp it st))"

text \<open>\<open>startPlayback\<close> (lines 353-384).\<close>

definition startPlayback :: "'w env \<Rightarrow> 'w playback \<Rightarrow> (error + unit) \<times> 'w playback" where
  "startPlayback env st =
     (case recording st of
        None \<Rightarrow> (Inl NoRecordingLoaded, st)
      | Some r \<Rightarrow>
          (if \<not> browser st then (Inl BrowserNotInitialized, st)
           else
             (Inr (),
              console PlaybackCompleted
                (playbackLoop env None 0 (interactions r)
                  (console PressCtrlC
                    (console (StartingPlayback (totalInteractions r) (playbackSpeed st)) st))))))"


section \<open>A concrete page for evaluation\<close>

text \<open>
  A page at \<open>about:blank\<close> on which exactly the selectors \<open>present\<close> match an
  element, a checkbox whose state is the browser state and which a click
  toggles; calls that need an element reject when none matches.
\<close>

definition needs_element :: "string list \<Rightarrow> string \<Rightarrow> error + unit" where
  "needs_element present sel =
     (if sel \<in> set present then Inr () else Inl (PageError ''no element''))"

definition static_action :: "string list \<Rightarrow> bool \<Rightarrow> action \<Rightarrow> (error + unit) \<times> bool" where
  "static_action present w a =
     (case a of
        WaitForSelector s \<Rightarrow>
          (case s of Str x \<Rightarrow> (needs_element present x, w) | _ \<Rightarrow> (Inl (PageError ''timeout''), w))
      | Click sel \<Rightarrow> (needs_element present sel, if sel \<in> set present then \<not> w else w)
      | Focus sel \<Rightarrow> (needs_element present sel, w)
      | TypeText sel v \<Rightarrow> (needs_element present sel, w)
      | SelectOption sel v \<Rightarrow> (needs_element present sel, w)
      | _ \<Rightarrow> (Inr (), w))"

definition static_env :: "string list \<Rightarrow> string \<Rightarrow> bool env" where
  "static_env present tag =
     \<lparr> page_url = (\<lambda>w p. (Inr ''about:blank'', w)),
       page_query = (\<lambda>w p sel. (Inr (if sel \<in> set present then Some 0 else None), w)),
       page_eval_checked =
         (\<lambda>w p sel. (if sel \<in> set present then Inr (Some w) else Inl (PageError ''no element''), w)),
       page_action = (\<lambda>w p a. static_action present w a),
       doc_querySelector =
         (\<lambda>w p s. (Inr (case s of Str x \<Rightarrow> if x \<in> set present then Some 0 else None | _ \<Rightarrow> None), w)),
       elem_tagName = (\<lambda>w p el. tag),
       elem_effect = (\<lambda>w p el eff. (Inr (), w)),
       browser_pages = (\<lambda>w. (Inr [0], w)) \<rparr>"

text \<open>A freshly initialised engine (constructor plus \<open>initialize\<close>) with a recording.\<close>

definition ready :: "recording \<Rightarrow> bool \<Rightarrow> bool playback" where
  "ready r w =
     \<lparr> browser = True, page = Some 0, playbackSpeed = 1, recording = Some r,
       world = w, trace = [] \<rparr>"

definition blank :: interaction where
  "blank =
     \<lparr> type = [], timestamp = None, url = Undefined, tagName = Undefined,
       id_attr = Undefined, className = Undefined, name = Undefined,
       selector = Undefined, value_attr = Undefined, checked = None,
       coordinates = None \<rparr>"

definition session :: "int \<Rightarrow> interaction list \<Rightarrow> recording" where
  "session n its =
     \<lparr> sessionId = ''1750718332829'', startTime = ''2025-06-23T22:38:52.829Z'',
       endTime = ''2025-06-23T22:40:00.000Z'', totalInteractions = n,
       interactions = its \<rparr>"

text \<open>The engine as its constructor leaves it (lines 8-13).\<close>

definition constructed :: "bool \<Rightarrow> bool playback" where
  "constructed w =
     \<lparr> browser = False, page = None, playbackSpeed = 1, recording = None,
       world = w, trace = [] \<rparr>"

text \<open>A file system holding one recording.\<close>

definition one_file :: "string \<Rightarrow> recording \<Rightarrow> string \<Rightarrow> (error + recording) option" where
  "one_file path r p = (if p = path then Some (Inr r) else None)"


text \<open>
  Three events, the first of which fails on a page with no element (the
  checkbox cannot be read), the second of an unsupported kind.
\<close>

definition failing_first :: recording where
  "failing_first =
     session 3
       [blank\<lparr>type := ''checkbox'', timestamp := Some 1000, selector := Str ''#agree''\<rparr>,
        blank\<lparr>type := ''hover'', timestamp := Some 1500\<rparr>,
        blank\<lparr>type := ''click'', timestamp := Some 1600, selector := Str ''#go'',
          coordinates := Some (10, 20)\<rparr>]"








text \<open>
  A change event on a field that is not a \<open>SELECT\<close>, a submit event, two
  events recorded 20 ms apart and two recorded 500 ms apart.
\<close>

definition usa_change :: interaction where
  "usa_change =
     blank\<lparr>type := ''change'', tagName := Str ''INPUT'', selector := Str ''#country'',
       value_attr := Str ''USA''\<rparr>"

definition form_submit :: interaction where
  "form_submit = blank\<lparr>type := ''submit'', tagName := Str ''FORM'', selector := Str ''#signup''\<rparr>"

definition quick_pair :: recording where
  "quick_pair =
     session 2
       [blank\<lparr>type := ''hover'', timestamp := Some 1000\<rparr>,
        blank\<lparr>type := ''hover'', timestamp := Some 1020\<rparr>]"

definition slow_pair :: recording where
  "slow_pair =
     session 2
       [blank\<lparr>type := ''hover'', timestamp := Some 1000\<rparr>,
        blank\<lparr>type := ''hover'', timestamp := Some 1500\<rparr>]"




section \<open>Observing a run\<close>

text \<open>
  An event is attempted when \<open>playInteraction\<close> prints its \<open>Playing\<close> line, the
  first statement of its \<open>try\<close> block; \<open>attempts\<close> reads the position and kind
  of every attempted event off a trace.
\<close>

definition attempt_of :: "event \<Rightarrow> (nat \<times> string) list" where
  "attempt_of e = (case e of Console (Playing n declared ty u) \<Rightarrow> [(n, ty)] | _ \<Rightarrow> [])"

definition attempts :: "event list \<Rightarrow> (nat \<times> string) list" where
  "attempts tr = concat (map attempt_of tr)"

text \<open>Two states with the same engine fields and the same attempted events.\<close>

definition steady :: "'w playback \<Rightarrow> 'w playback \<Rightarrow> bool" where
  "steady st st' =
     (browser st' = browser st \<and> recording st' = recording st \<and>
      playbackSpeed st' = playbackSpeed st \<and> attempts (trace st') = attempts (trace st))"


text \<open>
  Clicks on a selector, and reads of a checkbox that gave a state other than
  the desired one (\<open>isChecked !== shouldBeChecked\<close>, line 278).
\<close>

definition is_click :: "event \<Rightarrow> bool" where
  "is_click e = (case e of PageCall p (Do (Click sel)) r \<Rightarrow> True | _ \<Rightarrow> False)"

definition clicks :: "event list \<Rightarrow> nat" where
  "clicks tr = length (filter is_click tr)"

definition is_differing_read :: "bool \<Rightarrow> event \<Rightarrow> bool" where
  "is_differing_read desired e =
     (case e of
        PageCall p (EvalChecked sel) (Gave (Flag isChecked)) \<Rightarrow> isChecked \<noteq> Some desired
      | _ \<Rightarrow> False)"

definition differing_reads :: "bool \<Rightarrow> event list \<Rightarrow> nat" where
  "differing_reads desired tr = length (filter (is_differing_read desired) tr)"


text \<open>
  Pointer and keyboard input sent to the page: \<open>page.mouse.click(x, y)\<close> and
  \<open>page.type(selector, text)\<close>.
\<close>

datatype gesture = MouseAt int int | TypedText string jstr

definition gesture_of :: "event \<Rightarrow> gesture list" where
  "gesture_of e =
     (case e of
        PageCall p (Do (MouseClick x y)) r \<Rightarrow> [MouseAt x y]
      | PageCall p (Do (TypeText sel v)) r \<Rightarrow> [TypedText sel v]
      | _ \<Rightarrow> [])"

definition gestures :: "event list \<Rightarrow> gesture list" where
  "gestures tr = concat (map gesture_of tr)"

definition pointer :: "gesture list \<Rightarrow> (int \<times> int) list" where
  "pointer gs = concat (map (\<lambda>g. case g of MouseAt x y \<Rightarrow> [(x, y)] | _ \<Rightarrow> []) gs)"





section \<open>Properties\<close>

subsection \<open>Timing scheduler\<close>

text \<open>
  Claim C2. For every positive speed, \<open>calculateDelay\<close> returns
  \<open>max ((curr - prev) / speed) 50\<close>; hence it is the 50 ms floor when the
  interval is zero or negative, it does not increase when the speed increases,
  and for the timestamps 1000 and 1500 at speed 2 it is 250 ms.
\<close>

theorem calculateDelay_spec:
  assumes "0 < playbackSpeed st"
  shows "calculateDelay st prevT currT = max (real_of_int (currT - prevT) / playbackSpeed st) 50
    \<and> (currT \<le> prevT \<longrightarrow> calculateDelay st prevT currT = 50)
    \<and> (\<forall>st'::'w playback. playbackSpeed st \<le> playbackSpeed st' \<longrightarrow>
          calculateDelay st' prevT currT \<le> calculateDelay st prevT currT)
    \<and> (playbackSpeed st = 2 \<longrightarrow> calculateDelay st 1000 1500 = 250)"
proof -
  let ?s = "playbackSpeed st"
  let ?d = "real_of_int (currT - prevT)"
  have formula: "calculateDelay st prevT currT = max (?d / ?s) 50"
    by (simp add: calculateDelay_def)
  have floor: "calculateDelay st prevT currT = 50" if "currT \<le> prevT"
  proof -
    from that have "?d \<le> 0" by simp
    with assms have "?d / ?s \<le> 0" by (simp add: divide_nonpos_pos)
    then show ?thesis unfolding formula by simp
  qed
  have mono: "calculateDelay st' prevT currT \<le> calculateDelay st prevT currT"
    if le: "?s \<le> playbackSpeed st'" for st' :: "'w playback"
  proof (cases "0 \<le> ?d")
    case True
    with assms le have "?d / playbackSpeed st' \<le> ?d / ?s"
      by (simp add: frac_le)
    then show ?thesis by (simp add: calculateDelay_def max.coboundedI1)
  next
    case False
    with assms le have "?d / playbackSpeed st' \<le> 0"
      by (simp add: divide_nonpos_pos)
    then show ?thesis by (simp add: calculateDelay_def max.coboundedI2)
  qed
  have scenario: "calculateDelay st 1000 1500 = 250" if "?s = 2"
    using that by (simp add: calculateDelay_def)
  from formula floor mono scenario show ?thesis by blast
qed

theorem calculateDelay_spec_witness:
  "0 < playbackSpeed (setPlaybackSpeed 2 (ready (session 0 []) False))
   \<and> calculateDelay (setPlaybackSpeed 2 (ready (session 0 []) False)) 1000 1500 = 250
   \<and> calculateDelay (setPlaybackSpeed 2 (ready (session 0 []) False)) 1500 1500 = 50
   \<and> calculateDelay (setPlaybackSpeed 2 (ready (session 0 []) False)) 1500 1000 = 50
   \<and> calculateDelay (setPlaybackSpeed 4 (ready (session 0 []) False)) 1000 1500
        \<le> calculateDelay (setPlaybackSpeed 2 (ready (session 0 []) False)) 1000 1500"
proof -
  let ?st = "setPlaybackSpeed 2 (ready (session 0 []) False)"
  let ?st4 = "setPlaybackSpeed 4 (ready (session 0 []) False)"
  have speed: "playbackSpeed ?st = 2"
    by (simp add: setPlaybackSpeed_def console_def emit_def)
  then have pos: "0 < playbackSpeed ?st" by simp
  have four: "playbackSpeed ?st \<le> playbackSpeed ?st4"
    by (simp add: setPlaybackSpeed_def console_def emit_def)
  note a = calculateDelay_spec [OF pos, of 1000 1500]
  note b = calculateDelay_spec [OF pos, of 1500 1500]
  note c = calculateDelay_spec [OF pos, of 1500 1000]
  from a speed have "calculateDelay ?st 1000 1500 = 250" by blast
  moreover from b [THEN conjunct2, THEN conjunct1]
  have "calculateDelay ?st 1500 1500 = 50" by simp
  moreover from c [THEN conjunct2, THEN conjunct1]
  have "calculateDelay ?st 1500 1000 = 50" by simp
  moreover from a four have "calculateDelay ?st4 1000 1500 \<le> calculateDelay ?st 1000 1500"
    by blast
  ultimately show ?thesis using pos by blast
qed

subsection \<open>What a step leaves unchanged\<close>

text \<open>
  Every operation below \<open>playInteraction\<close> keeps the engine fields and adds no
  \<open>Playing\<close> line; \<open>playInteraction\<close> adds exactly one.
\<close>

lemma attempts_append [simp]: "attempts (xs @ ys) = attempts xs @ attempts ys"
  by (simp add: attempts_def)

lemma attempts_Nil [simp]: "attempts [] = []"
  by (simp add: attempts_def)

lemma attempts_Cons [simp]: "attempts (e # es) = attempt_of e @ attempts es"
  by (simp add: attempts_def)

lemma attempt_of_simps [simp]:
  "attempt_of (PageCall p c res) = []"
  "attempt_of (BrowserPages pages) = []"
  "attempt_of (Timeout ms) = []"
  "attempt_of (Console (Playing n declared ty u)) = [(n, ty)]"
  by (simp_all add: attempt_of_def)

lemma steady_refl [simp]: "steady st st"
  by (simp add: steady_def)

lemma steady_page [simp]: "steady st (st'\<lparr>page := p\<rparr>) = steady st st'"
  by (simp add: steady_def)

lemma emit_fields [simp]:
  "browser (emit e st) = browser st"
  "page (emit e st) = page st"
  "recording (emit e st) = recording st"
  "playbackSpeed (emit e st) = playbackSpeed st"
  "world (emit e st) = world st"
  "trace (emit e st) = trace st @ [e]"
  by (simp_all add: emit_def)

lemma console_fields [simp]:
  "browser (console m st) = browser st"
  "page (console m st) = page st"
  "recording (console m st) = recording st"
  "playbackSpeed (console m st) = playbackSpeed st"
  "world (console m st) = world st"
  "trace (console m st) = trace st @ [Console m]"
  by (simp_all add: console_def)

lemma setTimeout_fields [simp]:
  "browser (setTimeout ms st) = browser st"
  "page (setTimeout ms st) = page st"
  "recording (setTimeout ms st) = recording st"
  "playbackSpeed (setTimeout ms st) = playbackSpeed st"
  "world (setTimeout ms st) = world st"
  "trace (setTimeout ms st) = trace st @ [Timeout ms]"
  by (simp_all add: setTimeout_def)

lemma attempt_of_Console_simps [simp]:
  fixes n :: nat and k :: int
  shows
  "attempt_of (Console (LoadedRecording sid)) = []"
  "attempt_of (Console (TotalInteractions k)) = []"
  "attempt_of (Console (Duration t1 t2)) = []"
  "attempt_of (Console (PlaybackSpeedSet sp)) = []"
  "attempt_of (Console RefreshingPageReference) = []"
  "attempt_of (Console (NavigatingTo u)) = []"
  "attempt_of (Console NavigationFailedContinuing) = []"
  "attempt_of (Console (SkippingUnsupported ty)) = []"
  "attempt_of (Console (ErrorPlaying n e)) = []"
  "attempt_of (Console (NavigatedTo u)) = []"
  "attempt_of (Console (NavigationFailed e)) = []"
  "attempt_of (Console (Clicked s)) = []"
  "attempt_of (Console (ClickedAtCoordinates x y)) = []"
  "attempt_of (Console (CouldNotClickAtCoordinates e)) = []"
  "attempt_of (Console (CouldNotClickElement u)) = []"
  "attempt_of (Console (Typed u s)) = []"
  "attempt_of (Console (CouldNotTypeInElement u)) = []"
  "attempt_of (Console (Selected u s)) = []"
  "attempt_of (Console (ChangedValue u s)) = []"
  "attempt_of (Console (Toggled b s)) = []"
  "attempt_of (Console (SetRangeTo u v)) = []"
  "attempt_of (Console (SubmittedForm u)) = []"
  "attempt_of (Console (ElementNotFoundWithinTimeout u)) = []"
  "attempt_of (Console PageUnresponsive) = []"
  "attempt_of (Console (StartingPlayback k r)) = []"
  "attempt_of (Console PressCtrlC) = []"
  "attempt_of (Console (Waiting k)) = []"
  "attempt_of (Console PlaybackCompleted) = []"
  by (simp_all add: attempt_of_def)

lemma on_page_steady: "on_page f c give st = (r, st') \<Longrightarrow> steady st st'"
  by (auto simp: on_page_def steady_def emit_def split: option.splits prod.splits)

lemma browserPages_steady: "browserPages env st = (r, st') \<Longrightarrow> steady st st'"
  by (auto simp: browserPages_def steady_def emit_def split: if_splits prod.splits)

lemma pageUrl_steady: "pageUrl env st = (r, st') \<Longrightarrow> steady st st'"
  unfolding pageUrl_def by (rule on_page_steady)

lemma pageQuery_steady: "pageQuery env sel st = (r, st') \<Longrightarrow> steady st st'"
  unfolding pageQuery_def by (rule on_page_steady)

lemma pageEvalChecked_steady: "pageEvalChecked env sel st = (r, st') \<Longrightarrow> steady st st'"
  unfolding pageEvalChecked_def by (rule on_page_steady)

lemma pageDo_steady: "pageDo env a st = (r, st') \<Longrightarrow> steady st st'"
  unfolding pageDo_def by (rule on_page_steady)

lemma docQuerySelector_steady: "docQuerySelector env sel st = (r, st') \<Longrightarrow> steady st st'"
  unfolding docQuerySelector_def by (rule on_page_steady)

lemma elemEffect_steady: "elemEffect env el eff st = (r, st') \<Longrightarrow> steady st st'"
  unfolding elemEffect_def by (rule on_page_steady)

lemmas prim_steady =
  pageUrl_steady pageQuery_steady pageEvalChecked_steady pageDo_steady
  docQuerySelector_steady elemEffect_steady browserPages_steady

lemma pageDoAll_steady: "pageDoAll env as st = (r, st') \<Longrightarrow> steady st st'"
proof (induction as arbitrary: st)
  case Nil
  then show ?case by simp
next
  case (Cons a as)
  then show ?case
    by (auto split: prod.splits sum.splits dest!: prim_steady simp: steady_def)
qed

lemma waitForElement_steady: "steady st (waitForElement env sel st)"
  by (auto simp: waitForElement_def steady_def split: prod.splits sum.splits
      dest!: prim_steady)

lemmas waitForElement_frame [simp] = waitForElement_steady [unfolded steady_def]

lemma ensurePageReady_steady: "ensurePageReady env st = (r, st') \<Longrightarrow> steady st st'"
  unfolding ensurePageReady_def
  by (auto split: prod.splits sum.splits
      dest!: prim_steady simp: steady_def)

lemma playNavigation_steady: "playNavigation env it st = (r, st') \<Longrightarrow> steady st st'"
  unfolding playNavigation_def
  by (auto split: prod.splits sum.splits if_splits
      dest!: prim_steady simp: steady_def)

lemma clickLoop_steady: "clickLoop env sels st = (r, st') \<Longrightarrow> steady st st'"
proof (induction sels arbitrary: st)
  case Nil
  then show ?case by simp
next
  case (Cons sel sels)
  then show ?case
    by (auto split: prod.splits sum.splits option.splits
        dest!: prim_steady simp: steady_def)
qed

lemma playClick_steady: "playClick env it st = (r, st') \<Longrightarrow> steady st st'"
  unfolding playClick_def
  by (auto split: prod.splits sum.splits option.splits bool.splits
      dest!: prim_steady ensurePageReady_steady clickLoop_steady simp: steady_def)

lemma inputLoop_steady: "inputLoop env it sels st = (r, st') \<Longrightarrow> steady st st'"
proof (induction sels arbitrary: st)
  case Nil
  then show ?case by simp
next
  case (Cons sel sels)
  then show ?case
    by (auto split: prod.splits sum.splits option.splits if_splits
        dest!: prim_steady pageDoAll_steady simp: steady_def)
qed

lemma playInput_steady: "playInput env it st = (r, st') \<Longrightarrow> steady st st'"
  unfolding playInput_def
  by (auto split: prod.splits sum.splits option.splits bool.splits
      dest!: prim_steady ensurePageReady_steady inputLoop_steady simp: steady_def)

lemma evaluate_change_steady: "evaluate_change env sel v st = (r, st') \<Longrightarrow> steady st st'"
  unfolding evaluate_change_def
  by (auto split: prod.splits sum.splits option.splits
      dest!: prim_steady simp: steady_def)

lemma changeLoop_steady: "changeLoop env it sels st = (r, st') \<Longrightarrow> steady st st'"
proof (induction sels arbitrary: st)
  case Nil
  then show ?case by simp
next
  case (Cons sel sels)
  then show ?case
    by (auto split: prod.splits sum.splits option.splits if_splits
        dest!: prim_steady evaluate_change_steady simp: steady_def)
qed

lemma playChange_steady: "playChange env it st = (r, st') \<Longrightarrow> steady st st'"
  unfolding playChange_def
  by (auto split: prod.splits bool.splits
      dest!: changeLoop_steady simp: steady_def)

lemma checkboxLoop_steady: "checkboxLoop env it sels st = (r, st') \<Longrightarrow> steady st st'"
proof (induction sels arbitrary: st)
  case Nil
  then show ?case by simp
next
  case (Cons sel sels)
  then show ?case
    by (auto split: prod.splits sum.splits option.splits if_splits
        dest!: prim_steady simp: steady_def)
qed

lemma playCheckbox_steady: "playCheckbox env it st = (r, st') \<Longrightarrow> steady st st'"
  unfolding playCheckbox_def
  by (auto split: prod.splits bool.splits
      dest!: checkboxLoop_steady simp: steady_def)

lemma evaluate_range_steady: "evaluate_range env sel v st = (r, st') \<Longrightarrow> steady st st'"
  unfolding evaluate_range_def
  by (auto split: prod.splits sum.splits option.splits
      dest!: prim_steady simp: steady_def)

lemma playRange_steady: "playRange env it st = (r, st') \<Longrightarrow> steady st st'"
  unfolding playRange_def
  by (auto split: prod.splits sum.splits
      dest!: evaluate_range_steady simp: steady_def)

lemma evaluate_submit_steady: "evaluate_submit env sel st = (r, st') \<Longrightarrow> steady st st'"
  unfolding evaluate_submit_def
  by (auto split: prod.splits sum.splits option.splits if_splits
      dest!: prim_steady simp: steady_def)

lemma playSubmit_steady: "playSubmit env it st = (r, st') \<Longrightarrow> steady st st'"
  unfolding playSubmit_def
  by (auto split: prod.splits sum.splits
      dest!: evaluate_submit_steady simp: steady_def)

lemma dispatch_steady: "dispatch env it st = (r, st') \<Longrightarrow> steady st st'"
  unfolding dispatch_def
  by (auto split: if_splits
      dest: playNavigation_steady playClick_steady playInput_steady playChange_steady
        playSubmit_steady playCheckbox_steady playRange_steady simp: steady_def)

lemma refreshPageReference_steady: "refreshPageReference env st = (r, st') \<Longrightarrow> steady st st'"
  unfolding refreshPageReference_def
  by (auto split: prod.splits sum.splits
      dest!: prim_steady simp: steady_def)

lemma navigateIfNeeded_steady: "navigateIfNeeded env it st = (r, st') \<Longrightarrow> steady st st'"
  unfolding navigateIfNeeded_def
  by (auto split: prod.splits sum.splits if_splits
      dest!: prim_steady simp: steady_def)

lemma playInteraction_try_attempt:
  assumes "recording st = Some r" and "playInteraction_try env it i st = (res, st')"
  shows "browser st' = browser st \<and> recording st' = recording st \<and>
         playbackSpeed st' = playbackSpeed st \<and>
         attempts (trace st') = attempts (trace st) @ [(i + 1, type it)]"
  using assms unfolding playInteraction_try_def
  by (auto split: prod.splits sum.splits
      dest!: refreshPageReference_steady navigateIfNeeded_steady dispatch_steady
      simp: steady_def)

lemma playInteraction_attempt:
  assumes "recording st = Some r"
  shows "browser (playInteraction env it i st) = browser st \<and>
         recording (playInteraction env it i st) = recording st \<and>
         playbackSpeed (playInteraction env it i st) = playbackSpeed st \<and>
         attempts (trace (playInteraction env it i st)) = attempts (trace st) @ [(i + 1, type it)]"
proof (cases "playInteraction_try env it i st")
  case (Pair res st')
  from playInteraction_try_attempt [OF assms Pair] Pair show ?thesis
    by (cases res) (simp_all add: playInteraction_def)
qed

lemma applyDelay_steady: "steady st (applyDelay previousTimestamp it st)"
  by (simp add: applyDelay_def steady_def Let_def split: option.splits)

lemma playbackLoop_attempts:
  assumes "recording st = Some r"
  shows "browser (playbackLoop env previousTimestamp i its st) = browser st \<and>
         recording (playbackLoop env previousTimestamp i its st) = recording st \<and>
         playbackSpeed (playbackLoop env previousTimestamp i its st) = playbackSpeed st \<and>
         attempts (trace (playbackLoop env previousTimestamp i its st)) =
           attempts (trace st) @ map (\<lambda>(k, it). (k + 1, type it)) (enumerate i its)"
  using assms
proof (induction its arbitrary: previousTimestamp i st)
  case Nil
  then show ?case by simp
next
  case (Cons it its)
  let ?st1 = "applyDelay previousTimestamp it st"
  let ?st2 = "playInteraction env it i ?st1"
  have d: "steady st ?st1" by (rule applyDelay_steady)
  with Cons.prems have r1: "recording ?st1 = Some r" by (simp add: steady_def)
  note p = playInteraction_attempt [OF r1, of env it i]
  with r1 have r2: "recording ?st2 = Some r" by simp
  from Cons.IH [OF r2, of "timestamp it" "Suc i"] p d show ?case
    by (simp add: steady_def)
qed

lemma startPlayback_attempts:
  assumes "recording st = Some r" and "browser st"
  shows "fst (startPlayback env st) = Inr () \<and>
         attempts (trace (snd (startPlayback env st))) =
           attempts (trace st) @ map (\<lambda>(k, it). (k + 1, type it)) (enumerate 0 (interactions r))"
proof -
  let ?st0 = "console PressCtrlC
    (console (StartingPlayback (totalInteractions r) (playbackSpeed st)) st)"
  have r0: "recording ?st0 = Some r" using assms by simp
  from playbackLoop_attempts [OF r0, of env None 0 "interactions r"] assms show ?thesis
    by (simp add: startPlayback_def)
qed

subsection \<open>Playback controller\<close>

text \<open>
  Claim C1. With a recording loaded and a browser attached, \<open>startPlayback\<close>
  returns normally whatever the browser does; the events attempted are exactly
  the elements of \<open>interactions\<close>, in order and numbered from 1, so their
  number is the length of the sequence; and any failure raised inside the
  \<open>try\<close> block of \<open>playInteraction\<close> for event \<open>i\<close> is caught there and logged
  with the position \<open>i + 1\<close>, after which the handler returns.
\<close>

theorem startPlayback_isolation:
  assumes "recording st = Some r" and "browser st"
  shows "fst (startPlayback env st) = Inr ()
    \<and> attempts (trace (snd (startPlayback env st))) =
        attempts (trace st) @ map (\<lambda>(k, it). (k + 1, type it)) (enumerate 0 (interactions r))
    \<and> length (attempts (trace (snd (startPlayback env st)))) =
        length (attempts (trace st)) + length (interactions r)
    \<and> (\<forall>it i s e s'. playInteraction_try env it i s = (Inl e, s') \<longrightarrow>
          playInteraction env it i s = console (ErrorPlaying (i + 1) e) s')"
proof -
  note a = startPlayback_attempts [OF assms, of env]
  then have "length (attempts (trace (snd (startPlayback env st)))) =
      length (attempts (trace st)) + length (interactions r)"
    by simp
  moreover have "\<forall>it i s e s'. playInteraction_try env it i s = (Inl e, s') \<longrightarrow>
      playInteraction env it i s = console (ErrorPlaying (i + 1) e) s'"
    by (simp add: playInteraction_def)
  ultimately show ?thesis using a by blast
qed

text \<open>
  Claim C9. \<open>startPlayback\<close> raises at once, leaving the state (and so the
  trace) untouched, when no recording is loaded or no browser is attached; in
  every other state it returns normally.
\<close>

theorem startPlayback_preconditions:
  "(recording st = None \<longrightarrow> startPlayback env st = (Inl NoRecordingLoaded, st))
   \<and> (recording st \<noteq> None \<and> \<not> browser st \<longrightarrow>
        startPlayback env st = (Inl BrowserNotInitialized, st))
   \<and> (recording st \<noteq> None \<and> browser st \<longrightarrow> fst (startPlayback env st) = Inr ())"
  by (auto simp: startPlayback_def)

text \<open>The definitions a concrete run unfolds.\<close>

lemmas model_defs =
  startPlayback_def playInteraction_def playInteraction_try_def dispatch_def
  navigateIfNeeded_def refreshPageReference_def applyDelay_def calculateDelay_def Math_round_def
  playNavigation_def playClick_def playInput_def playChange_def playCheckbox_def
  playRange_def playSubmit_def evaluate_change_def evaluate_range_def evaluate_submit_def
  ensurePageReady_def waitForElement_def click_selectors_def name_selectors_def
  shouldBeChecked_def toLowerCase_def lower_char_def
  pageUrl_def pageQuery_def pageEvalChecked_def pageDo_def docQuerySelector_def
  elemEffect_def browserPages_def latestPage_def on_page_def outcome_def
  emit_def console_def setTimeout_def
  static_env_def static_action_def needs_element_def ready_def blank_def session_def
  constructed_def one_file_def loadRecording_def setPlaybackSpeed_def

theorem startPlayback_isolation_witness:
  "recording (ready failing_first False) = Some failing_first
   \<and> browser (ready failing_first False)
   \<and> fst (startPlayback (static_env [] ''INPUT'') (ready failing_first False)) = Inr ()
   \<and> attempts (trace (snd (startPlayback (static_env [] ''INPUT'') (ready failing_first False))))
       = [(1, ''checkbox''), (2, ''hover''), (3, ''click'')]
   \<and> length (attempts (trace (snd (startPlayback (static_env [] ''INPUT'')
        (ready failing_first False))))) = 3
   \<and> playInteraction (static_env [] ''INPUT'') (hd (interactions failing_first)) 0
        (ready failing_first False)
       = console (ErrorPlaying 1 (CouldNotToggleCheckbox (Str ''#agree'')))
           (snd (playInteraction_try (static_env [] ''INPUT'') (hd (interactions failing_first)) 0
             (ready failing_first False)))"
proof -
  let ?st = "ready failing_first False"
  let ?env = "static_env [] ''INPUT''"
  let ?it = "hd (interactions failing_first)"
  have r: "recording ?st = Some failing_first" and b: "browser ?st"
    by (simp_all add: ready_def)
  note t = startPlayback_isolation [OF r b, of ?env]
  have its: "map (\<lambda>(k, it). (k + 1, type it)) (enumerate 0 (interactions failing_first))
      = [(1, ''checkbox''), (2, ''hover''), (3, ''click'')]"
    by (simp add: failing_first_def session_def blank_def)
  have tr: "attempts (trace ?st) = []" by (simp add: ready_def)
  have fails: "fst (playInteraction_try ?env ?it 0 ?st) = Inl (CouldNotToggleCheckbox (Str ''#agree''))"
    by (simp add: failing_first_def model_defs)
  then have "playInteraction_try ?env ?it 0 ?st
      = (Inl (CouldNotToggleCheckbox (Str ''#agree'')), snd (playInteraction_try ?env ?it 0 ?st))"
    by (metis prod.collapse)
  with t have "playInteraction ?env ?it 0 ?st
      = console (ErrorPlaying (0 + 1) (CouldNotToggleCheckbox (Str ''#agree'')))
          (snd (playInteraction_try ?env ?it 0 ?st))"
    by blast
  with t its tr r b show ?thesis by simp
qed

theorem startPlayback_preconditions_witness:
  "startPlayback (static_env [] ''INPUT'') (constructed False)
     = (Inl NoRecordingLoaded, constructed False)
   \<and> startPlayback (static_env [] ''INPUT'') ((constructed False)\<lparr>recording := Some failing_first\<rparr>)
     = (Inl BrowserNotInitialized, (constructed False)\<lparr>recording := Some failing_first\<rparr>)
   \<and> fst (startPlayback (static_env [] ''INPUT'') (ready failing_first False)) = Inr ()"
proof -
  let ?env = "static_env [] ''INPUT''"
  have "recording (constructed False) = None" by (simp add: constructed_def)
  with startPlayback_preconditions [of "constructed False" ?env]
  have a: "startPlayback ?env (constructed False) = (Inl NoRecordingLoaded, constructed False)"
    by blast
  let ?st = "(constructed False)\<lparr>recording := Some failing_first\<rparr>"
  have "recording ?st \<noteq> None \<and> \<not> browser ?st" by (simp add: constructed_def)
  with startPlayback_preconditions [of ?st ?env]
  have b: "startPlayback ?env ?st = (Inl BrowserNotInitialized, ?st)" by blast
  have "recording (ready failing_first False) \<noteq> None \<and> browser (ready failing_first False)"
    by (simp add: ready_def)
  with startPlayback_preconditions [of "ready failing_first False" ?env]
  have c: "fst (startPlayback ?env (ready failing_first False)) = Inr ()" by blast
  from a b c show ?thesis by blast
qed

subsection \<open>Recording store\<close>

text \<open>
  Claim C6 as stated fails: \<open>loadRecording\<close> never compares
  \<open>totalInteractions\<close> with the length of \<open>interactions\<close>. For a recording that
  declares 5 interactions and holds 1, it prints the three lines it always
  prints and nothing else, the same output as for a recording that holds 5.
\<close>

theorem loadRecording_validation_counterexample:
  "totalInteractions (session 5 [blank]) \<noteq> int (length (interactions (session 5 [blank])))
   \<and> loadRecording (one_file ''rec.json'' (session 5 [blank])) ''rec.json'' (constructed False)
       = (Inr (),
          (constructed False)
            \<lparr>recording := Some (session 5 [blank]),
             trace := [Console (LoadedRecording ''1750718332829''),
                       Console (TotalInteractions 5),
                       Console (Duration ''2025-06-23T22:38:52.829Z'' ''2025-06-23T22:40:00.000Z'')]\<rparr>)
   \<and> trace (snd (loadRecording (one_file ''rec.json'' (session 5 [blank])) ''rec.json''
         (constructed False)))
       = trace (snd (loadRecording (one_file ''rec.json'' (session 5 (replicate 5 blank)))
           ''rec.json'' (constructed False)))"
  by (simp add: loadRecording_def one_file_def session_def constructed_def console_def emit_def)

text \<open>
  Claim C6, amended. \<open>loadRecording\<close> stores the parsed recording and prints
  the session id, the declared \<open>totalInteractions\<close> and the duration, nothing
  more: it does not validate the declared count and a mismatch is neither a
  warning nor a failure. Playback of the loaded recording (with a browser
  attached) returns normally and attempts exactly the elements of the actual
  \<open>interactions\<close> sequence.
\<close>

theorem loadRecording_proceeds:
  assumes "fs filePath = Some (Inr r)"
  shows "loadRecording fs filePath st
      = (Inr (),
         st\<lparr>recording := Some r,
            trace := trace st @
              [Console (LoadedRecording (sessionId r)),
               Console (TotalInteractions (totalInteractions r)),
               Console (Duration (startTime r) (endTime r))]\<rparr>)
    \<and> (browser st \<longrightarrow>
         fst (startPlayback env (snd (loadRecording fs filePath st))) = Inr ()
         \<and> attempts (trace (snd (startPlayback env (snd (loadRecording fs filePath st)))))
             = attempts (trace st) @
               map (\<lambda>(k, it). (k + 1, type it)) (enumerate 0 (interactions r)))"
proof -
  let ?st1 = "snd (loadRecording fs filePath st)"
  have load: "loadRecording fs filePath st
      = (Inr (),
         st\<lparr>recording := Some r,
            trace := trace st @
              [Console (LoadedRecording (sessionId r)),
               Console (TotalInteractions (totalInteractions r)),
               Console (Duration (startTime r) (endTime r))]\<rparr>)"
    using assms by (simp add: loadRecording_def console_def emit_def)
  then have r1: "recording ?st1 = Some r" and b1: "browser ?st1 = browser st"
    and a1: "attempts (trace ?st1) = attempts (trace st)"
    by simp_all
  have "fst (startPlayback env ?st1) = Inr ()
      \<and> attempts (trace (snd (startPlayback env ?st1)))
          = attempts (trace st) @
            map (\<lambda>(k, it). (k + 1, type it)) (enumerate 0 (interactions r))"
    if "browser st"
    using startPlayback_attempts [OF r1, of env] that b1 a1 by simp
  with load show ?thesis by blast
qed

theorem loadRecording_proceeds_witness:
  "one_file ''rec.json'' (session 5 [blank\<lparr>type := ''hover''\<rparr>]) ''rec.json''
      = Some (Inr (session 5 [blank\<lparr>type := ''hover''\<rparr>]))
   \<and> browser (ready failing_first False)
   \<and> fst (loadRecording (one_file ''rec.json'' (session 5 [blank\<lparr>type := ''hover''\<rparr>]))
        ''rec.json'' (ready failing_first False)) = Inr ()
   \<and> attempts (trace (snd (startPlayback (static_env [] ''INPUT'')
        (snd (loadRecording (one_file ''rec.json'' (session 5 [blank\<lparr>type := ''hover''\<rparr>]))
           ''rec.json'' (ready failing_first False))))))
       = [(1, ''hover'')]"
proof -
  let ?r = "session 5 [blank\<lparr>type := ''hover''\<rparr>]"
  let ?fs = "one_file ''rec.json'' ?r"
  let ?st = "ready failing_first False"
  have f: "?fs ''rec.json'' = Some (Inr ?r)" by (simp add: one_file_def)
  have b: "browser ?st" by (simp add: ready_def)
  have tr: "attempts (trace ?st) = []" by (simp add: ready_def)
  have its: "map (\<lambda>(k, it). (k + 1, type it)) (enumerate 0 (interactions ?r)) = [(1, ''hover'')]"
    by (simp add: session_def blank_def)
  note t = loadRecording_proceeds [of ?fs "''rec.json''" ?r ?st "static_env [] ''INPUT''", OF f]
  from t have "fst (loadRecording ?fs ''rec.json'' ?st) = Inr ()" by simp
  moreover from t b have "attempts (trace (snd (startPlayback (static_env [] ''INPUT'')
      (snd (loadRecording ?fs ''rec.json'' ?st)))))
      = attempts (trace ?st) @
        map (\<lambda>(k, it). (k + 1, type it)) (enumerate 0 (interactions ?r))"
    by blast
  ultimately show ?thesis using f b tr its by simp
qed

subsection \<open>Action dispatcher\<close>





lemma clicks_simps [simp]:
  "clicks [] = 0"
  "clicks (xs @ ys) = clicks xs + clicks ys"
  "clicks (PageCall p (Do (Click sel)) r # xs) = Suc (clicks xs)"
  "clicks (PageCall p (Do (WaitForSelector js)) r # xs) = clicks xs"
  "clicks (PageCall p (EvalChecked sel) r # xs) = clicks xs"
  "clicks (Console m # xs) = clicks xs"
  by (simp_all add: clicks_def is_click_def)

lemma differing_reads_simps [simp]:
  "differing_reads d [] = 0"
  "differing_reads d (xs @ ys) = differing_reads d xs + differing_reads d ys"
  "differing_reads d (PageCall p (Do a) r # xs) = differing_reads d xs"
  "differing_reads d (PageCall p (EvalChecked sel) (Threw e) # xs) = differing_reads d xs"
  "differing_reads d (PageCall p (EvalChecked sel) (Gave (Flag cur)) # xs) =
     (if cur \<noteq> Some d then Suc (differing_reads d xs) else differing_reads d xs)"
  "differing_reads d (Console m # xs) = differing_reads d xs"
  by (simp_all add: differing_reads_def is_differing_read_def)







lemma gestures_simps [simp]:
  "gestures [] = []"
  "gestures (xs @ ys) = gestures xs @ gestures ys"
  "gestures (PageCall p (Do (MouseClick x y)) r # xs) = MouseAt x y # gestures xs"
  "gestures (PageCall p (Do (TypeText sel v)) r # xs) = TypedText sel v # gestures xs"
  "gestures (PageCall p (Do (WaitForSelector js)) r # xs) = gestures xs"
  "gestures (PageCall p (Do ReadyState) r # xs) = gestures xs"
  "gestures (PageCall p (Do (Click sel)) r # xs) = gestures xs"
  "gestures (PageCall p (Do (Focus sel)) r # xs) = gestures xs"
  "gestures (PageCall p (Do (KeyboardDown k)) r # xs) = gestures xs"
  "gestures (PageCall p (Do (KeyboardPress k)) r # xs) = gestures xs"
  "gestures (PageCall p (Do (KeyboardUp k)) r # xs) = gestures xs"
  "gestures (PageCall p (Query sel) r # xs) = gestures xs"
  "gestures (BrowserPages pages # xs) = gestures xs"
  "gestures (Console m # xs) = gestures xs"
  by (simp_all add: gestures_def gesture_of_def)

lemma pointer_simps [simp]:
  "pointer [] = []"
  "pointer (gs @ hs) = pointer gs @ pointer hs"
  "pointer (MouseAt x y # gs) = (x, y) # pointer gs"
  "pointer (TypedText sel v # gs) = pointer gs"
  by (simp_all add: pointer_def)














subsection \<open>Element resolver\<close>




subsection \<open>Change and submit on an unresolved target\<close>

text \<open>
  Claim C4, evaluated. On a page where nothing matches the selector, a change
  event on a field that is not a \<open>SELECT\<close> and a submit event both return
  normally and print their success line; so does a submit event whose target
  is a \<open>DIV\<close>, and no form is submitted. Only the \<open>SELECT\<close> path raises.
\<close>

theorem unresolved_change_and_submit_return_normally:
  "playChange (static_env [] ''INPUT'') usa_change (ready (session 1 [usa_change]) False)
     = (Inr (),
        (ready (session 1 [usa_change]) False)
          \<lparr>trace :=
             [PageCall 0 (Do (WaitForSelector (Str ''#country''))) (Threw (PageError ''no element'')),
              Console (ElementNotFoundWithinTimeout (Str ''#country'')),
              PageCall 0 (QuerySelector (Str ''#country'')) (Gave (Handle None)),
              Console (ChangedValue (Str ''USA'') ''#country'')]\<rparr>)
   \<and> playSubmit (static_env [] ''FORM'') form_submit (ready (session 1 [form_submit]) False)
     = (Inr (),
        (ready (session 1 [form_submit]) False)
          \<lparr>trace :=
             [PageCall 0 (Do (WaitForSelector (Str ''#signup''))) (Threw (PageError ''no element'')),
              Console (ElementNotFoundWithinTimeout (Str ''#signup'')),
              PageCall 0 (QuerySelector (Str ''#signup'')) (Gave (Handle None)),
              Console (SubmittedForm (Str ''#signup''))]\<rparr>)
   \<and> playSubmit (static_env [''#signup''] ''DIV'') form_submit (ready (session 1 [form_submit]) False)
     = (Inr (),
        (ready (session 1 [form_submit]) False)
          \<lparr>trace :=
             [PageCall 0 (Do (WaitForSelector (Str ''#signup''))) (Gave Unit),
              PageCall 0 (QuerySelector (Str ''#signup'')) (Gave (Handle (Some 0))),
              Console (SubmittedForm (Str ''#signup''))]\<rparr>)
   \<and> fst (playChange (static_env [] ''SELECT'') (usa_change\<lparr>tagName := Str ''SELECT''\<rparr>)
          (ready (session 1 [usa_change]) False))
     = Inl (CouldNotChangeElement (Str ''#country''))"
  by (simp add: usa_change_def form_submit_def model_defs)

subsection \<open>Delays at the floor\<close>

text \<open>
  Claim C5, evaluated. Two events recorded 20 ms apart at speed 1 have a
  computed delay of 50 ms, and the run contains no wait at all between them;
  two events recorded 500 ms apart are separated by the progress line and a
  wait of 500 ms.
\<close>

theorem floor_delay_is_not_applied:
  "calculateDelay (ready quick_pair False) 1000 1020 = 50
   \<and> trace (snd (startPlayback (static_env [] ''INPUT'') (ready quick_pair False)))
     = [Console (StartingPlayback 2 1), Console PressCtrlC,
        Console (Playing 1 2 ''hover'' Undefined),
        PageCall 0 Url (Gave (Text ''about:blank'')), PageCall 0 Url (Gave (Text ''about:blank'')),
        Console (SkippingUnsupported ''hover''),
        Console (Playing 2 2 ''hover'' Undefined),
        PageCall 0 Url (Gave (Text ''about:blank'')), PageCall 0 Url (Gave (Text ''about:blank'')),
        Console (SkippingUnsupported ''hover''),
        Console PlaybackCompleted]
   \<and> calculateDelay (ready slow_pair False) 1000 1500 = 500
   \<and> trace (snd (startPlayback (static_env [] ''INPUT'') (ready slow_pair False)))
     = [Console (StartingPlayback 2 1), Console PressCtrlC,
        Console (Playing 1 2 ''hover'' Undefined),
        PageCall 0 Url (Gave (Text ''about:blank'')), PageCall 0 Url (Gave (Text ''about:blank'')),
        Console (SkippingUnsupported ''hover''),
        Console (Waiting 500), Timeout 500,
        Console (Playing 2 2 ''hover'' Undefined),
        PageCall 0 Url (Gave (Text ''about:blank'')), PageCall 0 Url (Gave (Text ''about:blank'')),
        Console (SkippingUnsupported ''hover''),
        Console PlaybackCompleted]"
  by (simp add: quick_pair_def slow_pair_def model_defs)

end
